theory Spec2Isabelle
  imports Complex_Main
begin

section \<open>JavaScript values\<close>

text \<open>
  Configuration entries and notebook metadata fields are typed \<open>any\<close> in the sources, so
  they are modelled as JavaScript values. Only truthiness and strict equality with
  \<open>true\<close> are ever taken of them. \<open>JInfinity\<close> stands for both infinities (both truthy).
\<close>

datatype jsval =
    JUndefined
  | JNull
  | JBool bool
  | JNaN
  | JInfinity
  | JNum real
  | JStr string

fun truthy :: "jsval \<Rightarrow> bool" where
  "truthy JUndefined = False"
| "truthy JNull = False"
| "truthy (JBool b) = b"
| "truthy JNaN = False"
| "truthy JInfinity = True"
| "truthy (JNum n) = (n \<noteq> 0)"
| "truthy (JStr s) = (s \<noteq> [])"

text \<open>\<open>a || b\<close>: the left operand when it is truthy, the right one otherwise.\<close>

definition js_or :: "jsval \<Rightarrow> jsval \<Rightarrow> jsval" where
  "js_or a b = (if truthy a then a else b)"

text \<open>\<open>isNullOrUndefined\<close> of Node's \<open>util\<close>.\<close>

fun isNullOrUndefined :: "jsval \<Rightarrow> bool" where
  "isNullOrUndefined JUndefined = True"
| "isNullOrUndefined JNull = True"
| "isNullOrUndefined _ = False"

text \<open>A value of type \<open>string | undefined\<close> as a JavaScript value.\<close>

fun of_optional :: "string option \<Rightarrow> jsval" where
  "of_optional None = JUndefined"
| "of_optional (Some s) = JStr s"

datatype js_error = TypeError

section \<open>NotebookViewsCardComponent\<close>

text \<open>
  One entry of \<open>INotebookViewCellMetadata.views\<close>: the per-view metadata of a cell. The
  getter \<open>data\<close> is typed \<open>any\<close>, so the fields read from it are JavaScript values.
\<close>

record NotebookViewCell =
  cell_guid :: string
  cell_width :: jsval
  cell_height :: jsval

record INotebookViewCellMetadata =
  views :: "NotebookViewCell list option"

record INotebookView =
  guid :: string

text \<open>The fields \<open>_metadata\<close> and \<open>_activeView\<close> of the component; \<open>None\<close> is \<open>undefined\<close>.\<close>

record NotebookViewsCardComponent =
  metadata :: "INotebookViewCellMetadata option"
  activeView :: "INotebookView option"

text \<open>
  \<open>this._metadata?.views?.find(v => v.guid === this._activeView.guid)\<close>. The callback
  reads \<open>this._activeView.guid\<close>, which throws a TypeError when there is no active view;
  \<open>find\<close> calls it only when the array has an element.
\<close>

definition data :: "NotebookViewsCardComponent \<Rightarrow> js_error + NotebookViewCell option" where
  "data c =
     (case metadata c of
        None \<Rightarrow> Inr None
      | Some m \<Rightarrow>
          (case views m of
             None \<Rightarrow> Inr None
           | Some [] \<Rightarrow> Inr None
           | Some (v # vs) \<Rightarrow>
               (case activeView c of
                  None \<Rightarrow> Inl TypeError
                | Some a \<Rightarrow> Inr (find (\<lambda>w. cell_guid w = guid a) (v # vs)))))"

text \<open>
  \<open>this.data?.width ? this.data.width : DEFAULT_VIEW_CARD_WIDTH\<close>. The two constants are
  imported from \<open>notebookViewModel\<close>, which is not among the sources: they are parameters.
\<close>

definition width :: "jsval \<Rightarrow> NotebookViewsCardComponent \<Rightarrow> js_error + jsval" where
  "width DEFAULT_VIEW_CARD_WIDTH c =
     (case data c of
        Inl e \<Rightarrow> Inl e
      | Inr None \<Rightarrow> Inr DEFAULT_VIEW_CARD_WIDTH
      | Inr (Some d) \<Rightarrow>
          (if truthy (cell_width d) then Inr (cell_width d) else Inr DEFAULT_VIEW_CARD_WIDTH))"

definition height :: "jsval \<Rightarrow> NotebookViewsCardComponent \<Rightarrow> js_error + jsval" where
  "height DEFAULT_VIEW_CARD_HEIGHT c =
     (case data c of
        Inl e \<Rightarrow> Inl e
      | Inr None \<Rightarrow> Inr DEFAULT_VIEW_CARD_HEIGHT
      | Inr (Some d) \<Rightarrow>
          (if truthy (cell_height d) then Inr (cell_height d) else Inr DEFAULT_VIEW_CARD_HEIGHT))"

section \<open>ServerTreeDragAndDrop\<close>

text \<open>
  The elements of the server tree. \<open>ConnectionGroup\<close> and \<open>ConnectionProfile\<close> are declared
  outside the sources; the model keeps the members the handlers read: \<open>id\<close>, \<open>name\<close>,
  \<open>serverName\<close> and the parent returned by \<open>getParent()\<close> (\<open>None\<close> is \<open>undefined\<close>).
\<close>

datatype ConnectionGroup =
  ConnectionGroup (group_id: string) (group_name: string) (group_parent: "ConnectionGroup option")

datatype ConnectionProfile =
  ConnectionProfile (profile_id: string) (serverName: string) (profile_parent: "ConnectionGroup option")

text \<open>
  An element is typed \<open>any\<close>. \<open>Other\<close> is an object that is an instance of neither class:
  its \<open>id\<close> and \<open>name\<close> properties may be missing, and \<open>other_getParent\<close> is \<open>None\<close> when
  it has no \<open>getParent\<close> method and the method's result otherwise.
\<close>

datatype element =
    Profile ConnectionProfile
  | Group ConnectionGroup
  | Other (other_id: "string option") (other_name: "string option")
      (other_getParent: "ConnectionGroup option option")

datatype IDragOverReaction = DRAG_OVER_REJECT | DRAG_OVER_ACCEPT_BUBBLE_DOWN bool

text \<open>
  What the handlers call and do not define: \<open>canChangeConnectionConfig\<close> of the
  connection management service, \<open>isAncestorOf\<close> and \<open>equals\<close> of \<open>ConnectionGroup\<close>,
  and the constant \<open>UNSAVED_GROUP_ID\<close>.
\<close>

record collaborators =
  canChangeConnectionConfig :: "ConnectionProfile \<Rightarrow> string option \<Rightarrow> bool"
  isAncestorOf :: "ConnectionGroup \<Rightarrow> element \<Rightarrow> bool"
  equals :: "ConnectionGroup \<Rightarrow> element option \<Rightarrow> bool"
  UNSAVED_GROUP_ID :: string

text \<open>The calls made on the connection management service, in order.\<close>

datatype service_call =
    changeGroupIdForConnection ConnectionProfile "string option"
  | changeGroupIdForConnectionGroup ConnectionGroup "element option"

record drag_state =
  isInDragAndDrop :: bool
  calls :: "service_call list"

fun element_id :: "element \<Rightarrow> string option" where
  "element_id (Profile p) = Some (profile_id p)"
| "element_id (Group g) = Some (group_id g)"
| "element_id (Other i n p) = i"

fun element_name :: "element \<Rightarrow> string option" where
  "element_name (Profile p) = None"
| "element_name (Group g) = Some (group_name g)"
| "element_name (Other i n p) = n"

text \<open>\<open>instanceof ConnectionProfile\<close> and \<open>instanceof ConnectionGroup\<close>.\<close>

fun instanceofConnectionProfile :: "element \<Rightarrow> bool" where
  "instanceofConnectionProfile (Profile p) = True"
| "instanceofConnectionProfile _ = False"

fun instanceofConnectionGroup :: "element \<Rightarrow> bool" where
  "instanceofConnectionGroup (Group g) = True"
| "instanceofConnectionGroup _ = False"

text \<open>\<open>getTargetGroup\<close>: the parent of a profile, the element itself otherwise.\<close>

fun getTargetGroup :: "element \<Rightarrow> element option" where
  "getTargetGroup (Profile p) = map_option Group (profile_parent p)"
| "getTargetGroup e = Some e"

text \<open>\<open>data.getData()[0]\<close>: \<open>undefined\<close> on an empty array.\<close>

fun first_source :: "element list \<Rightarrow> element option" where
  "first_source [] = None"
| "first_source (x # xs) = Some x"

text \<open>
  \<open>onDragOver\<close>. Reading \<open>targetConnectionProfileGroup.id\<close> throws when the target is a
  profile without a parent.
\<close>

definition onDragOver :: "collaborators \<Rightarrow> element list \<Rightarrow> element \<Rightarrow> js_error + IDragOverReaction" where
  "onDragOver svc dragged targetElement =
     (let react = (\<lambda>canDragOver.
            if canDragOver then DRAG_OVER_ACCEPT_BUBBLE_DOWN True else DRAG_OVER_REJECT)
      in case targetElement of
           Other i n p \<Rightarrow> Inr (react False)
         | _ \<Rightarrow>
             (case first_source dragged of
                Some (Profile source) \<Rightarrow>
                  (case getTargetGroup targetElement of
                     None \<Rightarrow> Inl TypeError
                   | Some g \<Rightarrow>
                       Inr (react (canChangeConnectionConfig svc source (element_id g))))
              | Some (Group source) \<Rightarrow>
                  Inr (react (Some (group_id source) \<noteq> element_id targetElement
                              \<and> \<not> isAncestorOf svc source targetElement))
              | _ \<Rightarrow> Inr (react True)))"

text \<open>\<open>isDropAllowed\<close>, with \<open>&&\<close> on possibly missing objects written out.\<close>

definition isDropAllowed ::
  "collaborators \<Rightarrow> element option \<Rightarrow> ConnectionGroup option \<Rightarrow> element \<Rightarrow> bool" where
  "isDropAllowed svc targetConnectionProfileGroup oldParent source =
     (let isDropToItself =
            (case (targetConnectionProfileGroup, source) of
               (Some t, Group g) \<Rightarrow> Some (group_name g) = element_name t
             | _ \<Rightarrow> False);
          isDropToSameLevel =
            (case oldParent of
               None \<Rightarrow> False
             | Some p \<Rightarrow> equals svc p targetConnectionProfileGroup);
          isUnsavedDrag =
            (case source of
               Group g \<Rightarrow> group_id g = UNSAVED_GROUP_ID svc
             | _ \<Rightarrow> False)
      in \<not> isDropToSameLevel \<and> \<not> isDropToItself \<and> \<not> isUnsavedDrag)"

text \<open>\<open>source.getParent\<close>: present on both classes; \<open>None\<close> when the method is missing.\<close>

fun getParent :: "element \<Rightarrow> ConnectionGroup option option" where
  "getParent (Profile p) = Some (profile_parent p)"
| "getParent (Group g) = Some (group_parent g)"
| "getParent (Other i n p) = p"

text \<open>
  \<open>drop\<close> (named \<open>drop_element\<close> here, \<open>drop\<close> being a list function). The flag is
  cleared first. Reading \<open>targetConnectionProfileGroup.id\<close> for a profile throws when there
  is no target group; the state reached by then is kept. The tree refresh chained to the
  service call with \<open>then\<close> changes no connection and is left out.
\<close>

definition drop_element :: "collaborators \<Rightarrow> drag_state \<Rightarrow> element list \<Rightarrow> element \<Rightarrow> js_error option \<times> drag_state" where
  "drop_element svc st dragged targetElement =
     (let st1 = st\<lparr>isInDragAndDrop := False\<rparr>;
          targetConnectionProfileGroup = getTargetGroup targetElement
      in case first_source dragged of
           None \<Rightarrow> (None, st1)
         | Some source \<Rightarrow>
             (case getParent source of
                None \<Rightarrow> (None, st1)
              | Some oldParent \<Rightarrow>
                  if isDropAllowed svc targetConnectionProfileGroup oldParent source then
                    (case source of
                       Profile p \<Rightarrow>
                         (case targetConnectionProfileGroup of
                            None \<Rightarrow> (Some TypeError, st1)
                          | Some t \<Rightarrow>
                              (None, st1\<lparr>calls := calls st1 @ [changeGroupIdForConnection p (element_id t)]\<rparr>))
                     | Group g \<Rightarrow>
                         (None, st1\<lparr>calls := calls st1 @
                            [changeGroupIdForConnectionGroup g targetConnectionProfileGroup]\<rparr>)
                     | Other i n q \<Rightarrow> (None, st1))
                  else (None, st1)))"

section \<open>The semver package\<close>

text \<open>
  Modelled from the spec: \<open>semver.gte\<close> belongs to the npm package \<open>semver\<close>, which is
  not among the sources. The spec says that the comparison "uses standard
  semantic-version precedence (major, minor, patch)" with "greater-or-equal" ordering.
  The model follows the package's strict mode: the version is trimmed, an optional
  leading \<open>v\<close> is dropped, and the rest must read
  \<open>major.minor.patch[-prerelease][+build]\<close>; the comparison takes the three numbers in
  turn and then the prerelease identifiers. A string that is no version makes the
  package throw a TypeError, which is \<open>None\<close> here.
\<close>

definition isDigit :: "char \<Rightarrow> bool" where
  "isDigit c = (c \<in> set ''0123456789'')"

definition isLetterDashNumber :: "char \<Rightarrow> bool" where
  "isLetterDashNumber c =
     (c \<in> set ''0123456789abcdefghijklmnopqrstuvwxyzABCDEFGHIJKLMNOPQRSTUVWXYZ-'')"

definition digitValue :: "char \<Rightarrow> int" where
  "digitValue c = of_char c - 48"

definition numberOf :: "string \<Rightarrow> int" where
  "numberOf ds = foldl (\<lambda>n c. 10 * n + digitValue c) 0 ds"

text \<open>The white space removed by \<open>String.prototype.trim\<close>, as far as single bytes go.\<close>

definition isWhiteSpace :: "char \<Rightarrow> bool" where
  "isWhiteSpace c = (of_char c \<in> {9, 10, 11, 12, 13, 32 :: int})"

definition trim :: "string \<Rightarrow> string" where
  "trim s = rev (dropWhile isWhiteSpace (rev (dropWhile isWhiteSpace s)))"

fun splitOn :: "char \<Rightarrow> string \<Rightarrow> string list" where
  "splitOn sep [] = [[]]"
| "splitOn sep (c # cs) =
     (if c = sep then [] # splitOn sep cs
      else (case splitOn sep cs of
              [] \<Rightarrow> [[c]]
            | l # ls \<Rightarrow> (c # l) # ls))"

text \<open>\<open>0|[1-9]\d*\<close>\<close>

definition isNumericIdentifier :: "string \<Rightarrow> bool" where
  "isNumericIdentifier s = (s \<noteq> [] \<and> list_all isDigit s \<and> (s = ''0'' \<or> hd s \<noteq> CHR ''0''))"

text \<open>A numeric identifier, or \<open>\d*[a-zA-Z-][a-zA-Z0-9-]*\<close>.\<close>

definition isPrereleaseIdentifier :: "string \<Rightarrow> bool" where
  "isPrereleaseIdentifier s =
     (isNumericIdentifier s \<or> (list_all isLetterDashNumber s \<and> \<not> list_all isDigit s))"

text \<open>\<open>[0-9A-Za-z-]+\<close>\<close>

definition isBuildIdentifier :: "string \<Rightarrow> bool" where
  "isBuildIdentifier s = (s \<noteq> [] \<and> list_all isLetterDashNumber s)"

record SemVer =
  major :: int
  minor :: int
  patch :: int
  prerelease :: "string list"

definition MAX_LENGTH :: int where
  "MAX_LENGTH = 256"

definition MAX_SAFE_INTEGER :: int where
  "MAX_SAFE_INTEGER = 9007199254740991"

text \<open>
  The pieces of the pattern \<open>^v?MAIN(-PRERELEASE)?(+BUILD)?$\<close>. The build part starts at
  the first \<open>+\<close> and the prerelease part at the first \<open>-\<close> before it, since neither
  character can stand earlier in a version.
\<close>

definition stripV :: "string \<Rightarrow> string" where
  "stripV t = (case t of [] \<Rightarrow> [] | c # cs \<Rightarrow> if c = CHR ''v'' then cs else c # cs)"

definition beforeChar :: "char \<Rightarrow> string \<Rightarrow> string" where
  "beforeChar c s = takeWhile (\<lambda>x. x \<noteq> c) s"

definition afterChar :: "char \<Rightarrow> string \<Rightarrow> string option" where
  "afterChar c s = (case dropWhile (\<lambda>x. x \<noteq> c) s of [] \<Rightarrow> None | x # r \<Rightarrow> Some r)"

definition parseMain :: "string \<Rightarrow> (int \<times> int \<times> int) option" where
  "parseMain m =
     (case splitOn CHR ''.'' m of
        [a, b, c] \<Rightarrow>
          if isNumericIdentifier a \<and> isNumericIdentifier b \<and> isNumericIdentifier c
             \<and> numberOf a \<le> MAX_SAFE_INTEGER \<and> numberOf b \<le> MAX_SAFE_INTEGER
             \<and> numberOf c \<le> MAX_SAFE_INTEGER
          then Some (numberOf a, numberOf b, numberOf c)
          else None
      | _ \<Rightarrow> None)"

definition parseIdentifiers :: "(string \<Rightarrow> bool) \<Rightarrow> string option \<Rightarrow> string list option" where
  "parseIdentifiers ok part =
     (case part of
        None \<Rightarrow> Some []
      | Some r \<Rightarrow> if list_all ok (splitOn CHR ''.'' r) then Some (splitOn CHR ''.'' r) else None)"

definition matchFull :: "string \<Rightarrow> SemVer option" where
  "matchFull u =
     (case parseMain (beforeChar CHR ''-'' (beforeChar CHR ''+'' u)) of
        None \<Rightarrow> None
      | Some m \<Rightarrow>
          (case parseIdentifiers isPrereleaseIdentifier
                  (afterChar CHR ''-'' (beforeChar CHR ''+'' u)) of
             None \<Rightarrow> None
           | Some pre \<Rightarrow>
               (case parseIdentifiers isBuildIdentifier (afterChar CHR ''+'' u) of
                  None \<Rightarrow> None
                | Some build \<Rightarrow>
                    Some \<lparr>major = fst m, minor = fst (snd m), patch = snd (snd m),
                          prerelease = pre\<rparr>)))"

text \<open>\<open>new SemVer(version)\<close>: \<open>None\<close> where the constructor throws.\<close>

definition parseSemVer :: "string \<Rightarrow> SemVer option" where
  "parseSemVer version =
     (if int (length version) > MAX_LENGTH then None else matchFull (stripV (trim version)))"

text \<open>The result of a comparison: \<open>-1\<close>, \<open>0\<close> or \<open>1\<close>.\<close>

definition compareNumbers :: "int \<Rightarrow> int \<Rightarrow> int" where
  "compareNumbers a b = (if a = b then 0 else if a < b then -1 else 1)"

fun stringLess :: "string \<Rightarrow> string \<Rightarrow> bool" where
  "stringLess [] [] = False"
| "stringLess [] (b # bs) = True"
| "stringLess (a # as) [] = False"
| "stringLess (a # as) (b # bs) =
     (if a = b then stringLess as bs else (of_char a :: int) < of_char b)"

text \<open>
  \<open>compareIdentifiers\<close> on prerelease identifiers: numeric ones by value and below the
  others, the others as strings. (The package compares numeric identifiers as doubles;
  the model is exact for those below \<open>2^53\<close>.)
\<close>

definition isNumeric :: "string \<Rightarrow> bool" where
  "isNumeric a = (a \<noteq> [] \<and> list_all isDigit a)"

definition compareIdentifiers :: "string \<Rightarrow> string \<Rightarrow> int" where
  "compareIdentifiers a b =
     (if isNumeric a \<and> isNumeric b then compareNumbers (numberOf a) (numberOf b)
      else if a = b then 0
      else if isNumeric a \<and> \<not> isNumeric b then -1
      else if isNumeric b \<and> \<not> isNumeric a then 1
      else if stringLess a b then -1 else 1)"

definition compareMain :: "SemVer \<Rightarrow> SemVer \<Rightarrow> int" where
  "compareMain x y =
     (if compareNumbers (major x) (major y) \<noteq> 0 then compareNumbers (major x) (major y)
      else if compareNumbers (minor x) (minor y) \<noteq> 0 then compareNumbers (minor x) (minor y)
      else compareNumbers (patch x) (patch y))"

fun comparePreLoop :: "string list \<Rightarrow> string list \<Rightarrow> int" where
  "comparePreLoop [] [] = 0"
| "comparePreLoop (a # as) [] = 1"
| "comparePreLoop [] (b # bs) = -1"
| "comparePreLoop (a # as) (b # bs) =
     (if a = b then comparePreLoop as bs else compareIdentifiers a b)"

text \<open>\<open>comparePre\<close>: a version without prerelease is above one with a prerelease.\<close>

definition comparePre :: "SemVer \<Rightarrow> SemVer \<Rightarrow> int" where
  "comparePre x y =
     (if prerelease x \<noteq> [] \<and> prerelease y = [] then -1
      else if prerelease x = [] \<and> prerelease y \<noteq> [] then 1
      else if prerelease x = [] \<and> prerelease y = [] then 0
      else comparePreLoop (prerelease x) (prerelease y))"

definition compare :: "SemVer \<Rightarrow> SemVer \<Rightarrow> int" where
  "compare x y = (if compareMain x y \<noteq> 0 then compareMain x y else comparePre x y)"

text \<open>
  Modelled from the spec: \<open>semver.gte(a, b)\<close> of the package \<open>semver\<close> (not among the
  sources), the "greater-or-equal" of semantic-version precedence; \<open>None\<close> when either
  string is no version (a TypeError).
\<close>

definition gte :: "string \<Rightarrow> string \<Rightarrow> bool option" where
  "gte a b =
     (case parseSemVer a of
        None \<Rightarrow> None
      | Some x \<Rightarrow>
          (case parseSemVer b of
             None \<Rightarrow> None
           | Some y \<Rightarrow> Some (compare x y \<ge> 0)))"

section \<open>NetCoreTool: locating the installation\<close>

definition DBProjectConfigurationKey :: string where
  "DBProjectConfigurationKey = ''sqlDatabaseProjects''"

definition NetCoreInstallLocationKey :: string where
  "NetCoreInstallLocationKey = ''netCoreSDKLocation''"

definition NetCoreDoNotAskAgainKey :: string where
  "NetCoreDoNotAskAgainKey = ''netCoreDoNotAsk''"

definition NextCoreNonWindowsDefaultPath :: string where
  "NextCoreNonWindowsDefaultPath = ''/usr/local/share''"

definition winPlatform :: string where
  "winPlatform = ''win32''"

definition macPlatform :: string where
  "macPlatform = ''darwin''"

definition linuxPlatform :: string where
  "linuxPlatform = ''linux''"

text \<open>
  The module constant \<open>dotnet\<close>, the executable's name, as a function of \<open>os.platform()\<close>.
  Only \<open>runDotnetCommand\<close> reads it.
\<close>

definition dotnet :: "string \<Rightarrow> string" where
  "dotnet platform = (if platform = ''win32'' then ''dotnet.exe'' else ''dotnet'')"

datatype netCoreFindError = netCoreNotPresent | netCoreVersionNotSupported | noError

text \<open>The fields of a \<open>NetCoreTool\<close>; \<open>osPlatform\<close> is initialised from \<open>os.platform()\<close>.\<close>

record NetCoreTool =
  osPlatform :: string
  netCoreSdkInstalledVersion :: "string option"
  netCoreError :: netCoreFindError

text \<open>
  The two messages of the install dialog and its three buttons; their texts are constants
  of \<open>common/constants\<close>, which is not among the sources.
\<close>

datatype message =
    NetCoreInstallationConfirmation
  | NetCoreSupportedVersionInstallationConfirmation "string option"

datatype button = UpdateNetCoreLocation | InstallNetCore | DoNotAskAgain

text \<open>
  What the tool reads from and does to its host: the configuration
  (\<open>getConfiguration(section)[key]\<close>), \<open>process.env\<close>, \<open>os.homedir()\<close>, \<open>fs.existsSync\<close>
  and \<open>path.join\<close> (of Node, taken as given), and the effects in the order they happen:
  the command lines spawned, the dialogs shown, the editor commands executed and the
  URLs opened.
\<close>

record host =
  configuration :: "string \<Rightarrow> string \<Rightarrow> jsval"
  environment :: "string \<Rightarrow> string option"
  homedir :: string
  existsSync :: "string \<Rightarrow> bool"
  path_join :: "string \<Rightarrow> string \<Rightarrow> string"
  spawned :: "string list"
  shown :: "message list"
  executedCommands :: "string list"
  openedExternal :: "string list"

definition getDotnetPathIfPresent :: "host \<Rightarrow> string option \<Rightarrow> jsval" where
  "getDotnetPathIfPresent h folderPath =
     (case folderPath of
        None \<Rightarrow> JUndefined
      | Some f \<Rightarrow>
          if existsSync h (path_join h f ''dotnet'') then JStr (path_join h f ''dotnet'')
          else JUndefined)"

definition defaultWindowsLocation :: "host \<Rightarrow> jsval" where
  "defaultWindowsLocation h =
     js_or (js_or (getDotnetPathIfPresent h (environment h ''ProgramW6432''))
                  (getDotnetPathIfPresent h (environment h ''ProgramFiles(x86)'')))
           (getDotnetPathIfPresent h (environment h ''ProgramFiles''))"

definition defaultnonWindowsLocation :: "host \<Rightarrow> jsval" where
  "defaultnonWindowsLocation h =
     js_or (js_or (getDotnetPathIfPresent h (Some NextCoreNonWindowsDefaultPath))
                  (getDotnetPathIfPresent h (Some (homedir h))))
           JUndefined"

definition defaultLocalInstallLocationByDistribution :: "NetCoreTool \<Rightarrow> host \<Rightarrow> jsval" where
  "defaultLocalInstallLocationByDistribution t h =
     (if osPlatform t = winPlatform then defaultWindowsLocation h
      else if osPlatform t = macPlatform \<or> osPlatform t = linuxPlatform
        then defaultnonWindowsLocation h
      else JUndefined)"

definition netcoreInstallLocation :: "NetCoreTool \<Rightarrow> host \<Rightarrow> jsval" where
  "netcoreInstallLocation t h =
     js_or (configuration h DBProjectConfigurationKey NetCoreInstallLocationKey)
           (defaultLocalInstallLocationByDistribution t h)"

text \<open>\<open>fs.existsSync\<close> on any value: false on what is not a path.\<close>

definition fs_existsSync :: "host \<Rightarrow> jsval \<Rightarrow> bool" where
  "fs_existsSync h v = (case v of JStr s \<Rightarrow> existsSync h s | _ \<Rightarrow> False)"

text \<open>The getter \<open>isNetCoreInstallationPresent\<close>: its value and the tool it leaves.\<close>

definition isNetCoreInstallationPresent :: "NetCoreTool \<Rightarrow> host \<Rightarrow> bool \<times> NetCoreTool" where
  "isNetCoreInstallationPresent t h =
     (if \<not> isNullOrUndefined (netcoreInstallLocation t h)
         \<and> fs_existsSync h (netcoreInstallLocation t h)
      then (True, t)
      else (False, t\<lparr>netCoreError := netCoreNotPresent\<rparr>))"

section \<open>NetCoreTool: checking the version\<close>

text \<open>
  What a child process emits, in the order the listeners see it: chunks on \<open>stdout\<close> and
  \<open>stderr\<close>, \<open>exit\<close> with a code or a signal, and \<open>error\<close> when it could not be spawned.
\<close>

datatype child_event =
    StdoutData string
  | StderrData string
  | ExitEvent "int option" "string option"
  | ErrorEvent

datatype 'a promise = Resolved 'a | Rejected | Pending

text \<open>
  \<open>onExit\<close>: what an event does to the promise, given the version captured so far. The
  \<open>exit\<close> listener takes no argument; when \<open>semver.gte\<close> throws in it (no version
  captured, or no version at all), nothing settles the promise.
\<close>

definition onExit :: "string option \<Rightarrow> child_event \<Rightarrow> bool promise" where
  "onExit version ev =
     (case ev of
        ExitEvent code signal \<Rightarrow>
          (case version of
             None \<Rightarrow> Pending
           | Some v \<Rightarrow>
               (case gte v ''3.1.0'' of
                  None \<Rightarrow> Pending
                | Some isSupported \<Rightarrow> Resolved isSupported))
      | ErrorEvent \<Rightarrow> Rejected
      | _ \<Rightarrow> Pending)"

text \<open>
  The events of the \<open>dotnet --version\<close> child, taken in turn until the promise of \<open>onExit\<close>
  settles: a chunk on \<open>stdout\<close> replaces the captured version.
\<close>

fun awaitOnExit :: "string option \<Rightarrow> child_event list \<Rightarrow> bool promise \<times> string option" where
  "awaitOnExit version [] = (Pending, version)"
| "awaitOnExit version (StdoutData d # evs) = awaitOnExit (Some d) evs"
| "awaitOnExit version (ev # evs) =
     (case onExit version ev of
        Pending \<Rightarrow> awaitOnExit version evs
      | settled \<Rightarrow> (settled, version))"

datatype 'a completion = Returns 'a | NeverReturns

text \<open>
  \<open>isNetCoreVersionSupported\<close>: spawns the child; \<open>Returns None\<close> is \<open>undefined\<close>, the
  value of the \<open>catch\<close> branch.
\<close>

definition isNetCoreVersionSupported ::
  "NetCoreTool \<Rightarrow> host \<Rightarrow> child_event list \<Rightarrow> bool option completion \<times> NetCoreTool \<times> host" where
  "isNetCoreVersionSupported t h events =
     (case awaitOnExit (netCoreSdkInstalledVersion t) events of
        (Resolved isSupported, v) \<Rightarrow>
          (Returns (Some isSupported),
           (if \<not> isSupported
            then t\<lparr>netCoreSdkInstalledVersion := v, netCoreError := netCoreVersionNotSupported\<rparr>
            else t\<lparr>netCoreSdkInstalledVersion := v\<rparr>),
           h\<lparr>spawned := spawned h @ [''dotnet --version'']\<rparr>)
      | (Rejected, v) \<Rightarrow>
          (Returns None, t\<lparr>netCoreSdkInstalledVersion := v\<rparr>,
           h\<lparr>spawned := spawned h @ [''dotnet --version'']\<rparr>)
      | (Pending, v) \<Rightarrow>
          (NeverReturns, t\<lparr>netCoreSdkInstalledVersion := v\<rparr>,
           h\<lparr>spawned := spawned h @ [''dotnet --version'']\<rparr>))"

section \<open>NetCoreTool: the gate and the install dialog\<close>

text \<open>
  \<open>showInstallDialog\<close>, given the button the user picks (\<open>None\<close>: the dialog is dismissed).
  The calls to the editor are taken to succeed.
\<close>

definition showInstallDialog :: "NetCoreTool \<Rightarrow> host \<Rightarrow> button option \<Rightarrow> host" where
  "showInstallDialog t h answer =
     (case answer of
        Some UpdateNetCoreLocation \<Rightarrow>
          h\<lparr>shown := shown h @
               [if netCoreError t = netCoreNotPresent then NetCoreInstallationConfirmation
                else NetCoreSupportedVersionInstallationConfirmation (netCoreSdkInstalledVersion t)],
            executedCommands := executedCommands h @ [''workbench.action.openGlobalSettings'']\<rparr>
      | Some InstallNetCore \<Rightarrow>
          h\<lparr>shown := shown h @
               [if netCoreError t = netCoreNotPresent then NetCoreInstallationConfirmation
                else NetCoreSupportedVersionInstallationConfirmation (netCoreSdkInstalledVersion t)],
            openedExternal := openedExternal h @
               [''https://dotnet.microsoft.com/download/dotnet-core/3.1'']\<rparr>
      | Some DoNotAskAgain \<Rightarrow>
          h\<lparr>shown := shown h @
               [if netCoreError t = netCoreNotPresent then NetCoreInstallationConfirmation
                else NetCoreSupportedVersionInstallationConfirmation (netCoreSdkInstalledVersion t)],
            configuration := (configuration h)
               (DBProjectConfigurationKey :=
                  (configuration h DBProjectConfigurationKey)
                     (NetCoreDoNotAskAgainKey := JBool True))\<rparr>
      | None \<Rightarrow>
          h\<lparr>shown := shown h @
               [if netCoreError t = netCoreNotPresent then NetCoreInstallationConfirmation
                else NetCoreSupportedVersionInstallationConfirmation (netCoreSdkInstalledVersion t)]\<rparr>)"

text \<open>
  \<open>findOrInstallNetCore\<close>. The condition is
  \<open>(!present || !await isNetCoreVersionSupported()) && doNotAsk !== true\<close>, its operands
  taken from left to right: the version check runs only when an installation is
  present, and the configuration is read only when the left operand is true.
\<close>

definition findOrInstallNetCore ::
  "NetCoreTool \<Rightarrow> host \<Rightarrow> child_event list \<Rightarrow> button option
     \<Rightarrow> bool completion \<times> NetCoreTool \<times> host" where
  "findOrInstallNetCore t h events answer =
     (case isNetCoreInstallationPresent (t\<lparr>netCoreError := noError\<rparr>) h of
        (False, t1) \<Rightarrow>
          if configuration h DBProjectConfigurationKey NetCoreDoNotAskAgainKey \<noteq> JBool True
          then (Returns False, t1, showInstallDialog t1 h answer)
          else (Returns True, t1, h)
      | (True, t1) \<Rightarrow>
          (case isNetCoreVersionSupported t1 h events of
             (NeverReturns, t2, h2) \<Rightarrow> (NeverReturns, t2, h2)
           | (Returns (Some True), t2, h2) \<Rightarrow> (Returns True, t2, h2)
           | (Returns r, t2, h2) \<Rightarrow>
               if configuration h2 DBProjectConfigurationKey NetCoreDoNotAskAgainKey \<noteq> JBool True
               then (Returns False, t2, showInstallDialog t2 h2 answer)
               else (Returns True, t2, h2)))"

section \<open>NetCoreTool: streaming a command\<close>

text \<open>
  The output channel: the arguments of \<open>appendLine\<close> in order, and how often \<open>show\<close> was
  called. The two exit messages are localised texts: they are kept as the command line
  with the code or the signal.
\<close>

datatype channel_line =
    Line string
  | ExitedWithCode string int
  | ExitedWithSignal string "string option"

record OutputChannel =
  appended :: "channel_line list"
  revealed :: nat

definition appendLine :: "channel_line \<Rightarrow> OutputChannel \<Rightarrow> OutputChannel" where
  "appendLine l ch = ch\<lparr>appended := appended ch @ [l]\<rparr>"

definition prependChar :: "char \<Rightarrow> string list \<Rightarrow> string list" where
  "prependChar c ls = (case ls of [] \<Rightarrow> [[c]] | l # rest \<Rightarrow> (c # l) # rest)"

text \<open>\<open>split(/\r?\n/)\<close>: a line ends at a line feed, which a carriage return may precede.\<close>

fun splitLines :: "string \<Rightarrow> string list" where
  "splitLines [] = [[]]"
| "splitLines [c] = (if c = CHR 0x0A then [[], []] else [[c]])"
| "splitLines (c # d # cs) =
     (if c = CHR 0x0A then [] # splitLines (d # cs)
      else if c = CHR 0x0D \<and> d = CHR 0x0A then [] # splitLines cs
      else prependChar c (splitLines (d # cs)))"

definition outputDataChunk :: "string \<Rightarrow> OutputChannel \<Rightarrow> string \<Rightarrow> OutputChannel" where
  "outputDataChunk chunk outputChannel header =
     outputChannel\<lparr>appended := appended outputChannel
        @ map (\<lambda>line. Line (header @ line)) (splitLines chunk)\<rparr>"

text \<open>
  The three listeners of \<open>runStreamedCommand\<close> on one event, acting on \<open>stdoutData\<close> and
  the channel. There is no \<open>error\<close> listener here.
\<close>

fun streamListeners ::
  "string \<Rightarrow> string list \<times> OutputChannel \<Rightarrow> child_event \<Rightarrow> string list \<times> OutputChannel" where
  "streamListeners command (stdoutData, ch) (StdoutData d) =
     (stdoutData @ [d], outputDataChunk d ch ''    stdout: '')"
| "streamListeners command (stdoutData, ch) (StderrData d) =
     (stdoutData, outputDataChunk d ch ''    stderr: '')"
| "streamListeners command (stdoutData, ch) (ExitEvent (Some code) signal) =
     (stdoutData, appendLine (ExitedWithCode command code) ch)"
| "streamListeners command (stdoutData, ch) (ExitEvent None signal) =
     (stdoutData, appendLine (ExitedWithSignal command signal) ch)"
| "streamListeners command (stdoutData, ch) ErrorEvent = (stdoutData, ch)"

datatype command_error = ChildProcessError

text \<open>
  A run of the streamed command, step by step: an event of the child reaches the
  listeners, or the promise of \<open>cp.spawn\<close> settles (\<open>Settles True\<close>: fulfilled,
  \<open>Settles False\<close>: rejected). That promise belongs to the package
  \<open>promisify-child-process\<close>, which is not among the sources: when it settles, and how,
  is given by the run. A promise settles once; a later \<open>Settles\<close> has no effect.
\<close>

datatype stream_step = Emits child_event | Settles bool

text \<open>
  After \<open>runStreamedCommand\<close> has returned, its listeners stay on the child: the events
  delivered later still reach the channel (and \<open>stdoutData\<close>, which nobody reads any more).
\<close>

fun listenersAfterReturn ::
  "string \<Rightarrow> string list \<times> OutputChannel \<Rightarrow> stream_step list \<Rightarrow> OutputChannel" where
  "listenersAfterReturn command st [] = snd st"
| "listenersAfterReturn command st (Emits ev # steps) =
     listenersAfterReturn command (streamListeners command st ev) steps"
| "listenersAfterReturn command st (Settles fulfilled # steps) =
     listenersAfterReturn command st steps"

text \<open>
  \<open>await child\<close> and \<open>return stdoutData.join('')\<close>: the listeners run on each event
  until the promise settles; then the function returns what \<open>stdoutData\<close> holds at that
  moment, or throws the rejection on. A promise that never settles leaves the function
  waiting.
\<close>

fun awaitChild ::
  "string \<Rightarrow> string list \<times> OutputChannel \<Rightarrow> stream_step list
     \<Rightarrow> (command_error + string) completion \<times> OutputChannel" where
  "awaitChild command st [] = (NeverReturns, snd st)"
| "awaitChild command st (Emits ev # steps) =
     awaitChild command (streamListeners command st ev) steps"
| "awaitChild command st (Settles fulfilled # steps) =
     (Returns (if fulfilled then Inr (concat (fst st)) else Inl ChildProcessError),
      listenersAfterReturn command st steps)"

text \<open>
  \<open>runStreamedCommand\<close>: the command line is appended to the channel, the channel is
  shown, and the listeners start from an empty \<open>stdoutData\<close>. The result is the value
  returned (or the error thrown) and the channel once every step of the run is over.
\<close>

definition runStreamedCommand ::
  "string \<Rightarrow> OutputChannel \<Rightarrow> stream_step list
     \<Rightarrow> (command_error + string) completion \<times> OutputChannel" where
  "runStreamedCommand command outputChannel steps =
     awaitChild command
       ([], (appendLine (Line (''    > '' @ command)) outputChannel)
              \<lparr>revealed := Suc (revealed outputChannel)\<rparr>)
       steps"

section \<open>What the specification says, for comparison\<close>

text \<open>
  Semantic-version precedence against a release \<open>M.m.p\<close>, in the specification's words:
  major, minor and patch are compared in turn; with all three equal, a version that
  carries a prerelease tag precedes the release.
\<close>

fun releaseAtLeast :: "SemVer \<Rightarrow> int \<times> int \<times> int \<Rightarrow> bool" where
  "releaseAtLeast x (M, m, p) =
     (M < major x
      \<or> (major x = M \<and> (m < minor x
          \<or> (minor x = m \<and> (p < patch x \<or> (patch x = p \<and> prerelease x = []))))))"

text \<open>
  Discovery on Windows as the specification words it: the three directories in order,
  each joined with the executable's name on Windows, the first joined path that exists.
\<close>

definition claimed_defaultWindowsLocation :: "host \<Rightarrow> jsval" where
  "claimed_defaultWindowsLocation h =
     of_optional
       (map_option (\<lambda>d. path_join h d (dotnet winPlatform))
          (find (\<lambda>d. existsSync h (path_join h d (dotnet winPlatform)))
             (List.map_filter (environment h)
                [''ProgramW6432'', ''ProgramFiles(x86)'', ''ProgramFiles''])))"

text \<open>
  The chunks written to \<open>stdout\<close>, in arrival order; the events of a run, in arrival
  order; and the test for a step that delivers a \<open>stderr\<close> chunk.
\<close>

fun stdoutChunks :: "child_event list \<Rightarrow> string list" where
  "stdoutChunks [] = []"
| "stdoutChunks (StdoutData d # evs) = d # stdoutChunks evs"
| "stdoutChunks (ev # evs) = stdoutChunks evs"

fun eventsOf :: "stream_step list \<Rightarrow> child_event list" where
  "eventsOf [] = []"
| "eventsOf (Emits ev # steps) = ev # eventsOf steps"
| "eventsOf (Settles fulfilled # steps) = eventsOf steps"

fun isStderrStep :: "stream_step \<Rightarrow> bool" where
  "isStderrStep (Emits (StderrData d)) = True"
| "isStderrStep _ = False"

text \<open>
  What one event puts on the output channel, in the specification's words: each chunk
  is split on line boundaries and every line is emitted behind the label of its stream;
  the exit is reported by one line, with the code or else with the signal.
\<close>

fun emitted :: "string \<Rightarrow> child_event \<Rightarrow> channel_line list" where
  "emitted command (StdoutData d) = map (\<lambda>line. Line (''    stdout: '' @ line)) (splitLines d)"
| "emitted command (StderrData d) = map (\<lambda>line. Line (''    stderr: '' @ line)) (splitLines d)"
| "emitted command (ExitEvent (Some code) signal) = [ExitedWithCode command code]"
| "emitted command (ExitEvent None signal) = [ExitedWithSignal command signal]"
| "emitted command ErrorEvent = []"

section \<open>Concrete inputs\<close>

text \<open>
  \<open>path.join\<close> on a directory and a name that need no normalising, with the separator
  of the platform (the backslash is character \<open>0x5C\<close>).
\<close>

definition posix_join :: "string \<Rightarrow> string \<Rightarrow> string" where
  "posix_join a b = a @ ''/'' @ b"

definition win32_join :: "string \<Rightarrow> string \<Rightarrow> string" where
  "win32_join a b = a @ [CHR 0x5C] @ b"

text \<open>
  A Linux host where the configured location \<open>/opt/dotnet\<close> exists and "do not ask
  again" is set; the same host without the flag and without any installation.
\<close>

definition linux_host_suppressed :: host where
  "linux_host_suppressed =
     \<lparr>configuration = (\<lambda>section key.
          if section = ''sqlDatabaseProjects'' \<and> key = ''netCoreDoNotAsk'' then JBool True
          else if section = ''sqlDatabaseProjects'' \<and> key = ''netCoreSDKLocation''
            then JStr ''/opt/dotnet''
          else JUndefined),
      environment = (\<lambda>name. None),
      homedir = ''/home/user'',
      existsSync = (\<lambda>p. p = ''/opt/dotnet''),
      path_join = posix_join,
      spawned = [], shown = [], executedCommands = [], openedExternal = []\<rparr>"

definition linux_host_bare :: host where
  "linux_host_bare =
     \<lparr>configuration = (\<lambda>section key. JUndefined),
      environment = (\<lambda>name. None),
      homedir = ''/home/user'',
      existsSync = (\<lambda>p. False),
      path_join = posix_join,
      spawned = [], shown = [], executedCommands = [], openedExternal = []\<rparr>"

definition linux_tool :: NetCoreTool where
  "linux_tool = \<lparr>osPlatform = ''linux'', netCoreSdkInstalledVersion = None, netCoreError = noError\<rparr>"

text \<open>
  A Windows host with the SDK folder \<open>C:\Program Files\dotnet\<close> holding \<open>dotnet.exe\<close>,
  and nothing named \<open>dotnet.exe\<close> next to it.
\<close>

definition program_files :: string where
  "program_files = ''C:'' @ [CHR 0x5C] @ ''Program Files''"

definition windows_host :: host where
  "windows_host =
     \<lparr>configuration = (\<lambda>section key. JUndefined),
      environment = (\<lambda>name. if name = ''ProgramW6432'' \<or> name = ''ProgramFiles''
                               then Some program_files else None),
      homedir = ''C:'' @ [CHR 0x5C] @ ''Users'',
      existsSync = (\<lambda>p. p = win32_join program_files ''dotnet''
                        \<or> p = win32_join (win32_join program_files ''dotnet'') ''dotnet.exe''),
      path_join = win32_join,
      spawned = [], shown = [], executedCommands = [], openedExternal = []\<rparr>"

section \<open>Properties of the drag and drop handlers\<close>

text \<open>
  C8. For every target element that is neither a ConnectionProfile nor a ConnectionGroup,
  \<open>onDragOver\<close> returns \<open>DRAG_OVER_REJECT\<close>, whatever the dragged source data.
\<close>

theorem C8_onDragOver_rejects_other_targets:
  assumes "\<not> instanceofConnectionProfile targetElement"
    and "\<not> instanceofConnectionGroup targetElement"
  shows "onDragOver svc dragged targetElement = Inr DRAG_OVER_REJECT"
  using assms by (cases targetElement) (simp_all add: onDragOver_def)

theorem C8_onDragOver_rejects_other_targets_witness:
  "\<not> instanceofConnectionProfile (Other (Some ''node'') None None)
   \<and> \<not> instanceofConnectionGroup (Other (Some ''node'') None None)
   \<and> onDragOver
        \<lparr>canChangeConnectionConfig = (\<lambda>p g. True), isAncestorOf = (\<lambda>g e. False),
         equals = (\<lambda>g e. False), UNSAVED_GROUP_ID = ''unsaved''\<rparr>
        [Profile (ConnectionProfile ''p1'' ''srv'' None)]
        (Other (Some ''node'') None None) = Inr DRAG_OVER_REJECT"
  using C8_onDragOver_rejects_other_targets
    [of "Other (Some ''node'') None None"
        "\<lparr>canChangeConnectionConfig = (\<lambda>p g. True), isAncestorOf = (\<lambda>g e. False),
          equals = (\<lambda>g e. False), UNSAVED_GROUP_ID = ''unsaved''\<rparr>"
        "[Profile (ConnectionProfile ''p1'' ''srv'' None)]"]
  by simp

lemma isDropAllowed_same_level:
  "equals svc p t \<Longrightarrow> \<not> isDropAllowed svc t (Some p) source"
  by (simp add: isDropAllowed_def)

lemma isDropAllowed_itself:
  "element_name t = Some (group_name g) \<Longrightarrow> \<not> isDropAllowed svc (Some t) oldParent (Group g)"
  by (simp add: isDropAllowed_def)

lemma isDropAllowed_unsaved:
  "group_id g = UNSAVED_GROUP_ID svc \<Longrightarrow> \<not> isDropAllowed svc t oldParent (Group g)"
  by (simp add: isDropAllowed_def)

lemma drop_element_not_allowed:
  assumes "first_source dragged = Some source"
    and "\<And>oldParent. getParent source = Some oldParent \<Longrightarrow>
           \<not> isDropAllowed svc (getTargetGroup targetElement) oldParent source"
  shows "drop_element svc st dragged targetElement = (None, st\<lparr>isInDragAndDrop := False\<rparr>)"
proof (cases "getParent source")
  case None
  with assms(1) show ?thesis by (simp add: drop_element_def)
next
  case (Some oldParent)
  with assms(2) have "\<not> isDropAllowed svc (getTargetGroup targetElement) oldParent source"
    by simp
  with assms(1) Some show ?thesis by (simp add: drop_element_def)
qed

text \<open>
  C9. \<open>drop\<close> makes no \<open>changeGroupIdForConnection\<close> and no
  \<open>changeGroupIdForConnectionGroup\<close> call (and does not throw) whenever the source's
  current parent group equals the target group, or the source is a ConnectionGroup whose
  name is the target group's name, or the source is the unsaved-connections group.
\<close>

theorem C9_drop_makes_no_call:
  assumes "first_source dragged = Some source"
    and "(\<exists>p. getParent source = Some (Some p) \<and> equals svc p (getTargetGroup targetElement))
       \<or> (\<exists>g t. source = Group g \<and> getTargetGroup targetElement = Some t
                 \<and> element_name t = Some (group_name g))
       \<or> (\<exists>g. source = Group g \<and> group_id g = UNSAVED_GROUP_ID svc)"
  shows "calls (snd (drop_element svc st dragged targetElement)) = calls st
       \<and> fst (drop_element svc st dragged targetElement) = None"
proof -
  have "\<not> isDropAllowed svc (getTargetGroup targetElement) oldParent source"
    if "getParent source = Some oldParent" for oldParent
    using assms(2) that
    by (auto simp: isDropAllowed_same_level isDropAllowed_itself isDropAllowed_unsaved)
  then have "drop_element svc st dragged targetElement = (None, st\<lparr>isInDragAndDrop := False\<rparr>)"
    using assms(1) by (rule drop_element_not_allowed [rotated])
  then show ?thesis by simp
qed

theorem C9_drop_makes_no_call_witness:
  "first_source [Group (ConnectionGroup ''g1'' ''Servers'' None)]
     = Some (Group (ConnectionGroup ''g1'' ''Servers'' None))
   \<and> (\<exists>g t. Group (ConnectionGroup ''g1'' ''Servers'' None) = Group g
         \<and> getTargetGroup (Group (ConnectionGroup ''g2'' ''Servers'' None)) = Some t
         \<and> element_name t = Some (group_name g))
   \<and> calls (snd (drop_element
        \<lparr>canChangeConnectionConfig = (\<lambda>p g. True), isAncestorOf = (\<lambda>g e. False),
         equals = (\<lambda>g e. False), UNSAVED_GROUP_ID = ''unsaved''\<rparr>
        \<lparr>isInDragAndDrop = True, calls = []\<rparr>
        [Group (ConnectionGroup ''g1'' ''Servers'' None)]
        (Group (ConnectionGroup ''g2'' ''Servers'' None)))) = []"
  using C9_drop_makes_no_call
    [of "[Group (ConnectionGroup ''g1'' ''Servers'' None)]"
        "Group (ConnectionGroup ''g1'' ''Servers'' None)"
        "\<lparr>canChangeConnectionConfig = (\<lambda>p g. True), isAncestorOf = (\<lambda>g e. False),
          equals = (\<lambda>g e. False), UNSAVED_GROUP_ID = ''unsaved''\<rparr>"
        "Group (ConnectionGroup ''g2'' ''Servers'' None)"
        "\<lparr>isInDragAndDrop = True, calls = []\<rparr>"]
  by simp

section \<open>Properties of the notebook card\<close>

lemma data_no_metadata: "metadata c = None \<Longrightarrow> data c = Inr None"
  by (simp add: data_def)

text \<open>
  C10. Whenever the cell's per-view metadata is absent (no metadata at all, or no entry
  for the active view), or its width (respectively height) field is absent or falsy, the
  value 0 included, the width getter returns \<open>DEFAULT_VIEW_CARD_WIDTH\<close> and the height
  getter returns \<open>DEFAULT_VIEW_CARD_HEIGHT\<close>.
\<close>

theorem C10_card_width_height_default:
  "(metadata c = None \<or> data c = Inr None
      \<or> (\<exists>d. data c = Inr (Some d) \<and> \<not> truthy (cell_width d))
    \<longrightarrow> width DEFAULT_VIEW_CARD_WIDTH c = Inr DEFAULT_VIEW_CARD_WIDTH)
  \<and> (metadata c = None \<or> data c = Inr None
      \<or> (\<exists>d. data c = Inr (Some d) \<and> \<not> truthy (cell_height d))
    \<longrightarrow> height DEFAULT_VIEW_CARD_HEIGHT c = Inr DEFAULT_VIEW_CARD_HEIGHT)"
  by (auto simp: width_def height_def data_no_metadata)

theorem C10_card_width_height_default_witness:
  "data \<lparr>metadata = Some \<lparr>views = Some [\<lparr>cell_guid = ''v1'', cell_width = JNum 0,
            cell_height = JUndefined\<rparr>]\<rparr>, activeView = Some \<lparr>guid = ''v1''\<rparr>\<rparr>
     = Inr (Some \<lparr>cell_guid = ''v1'', cell_width = JNum 0, cell_height = JUndefined\<rparr>)
   \<and> \<not> truthy (JNum 0) \<and> \<not> truthy JUndefined
   \<and> width (JNum 12) \<lparr>metadata = Some \<lparr>views = Some [\<lparr>cell_guid = ''v1'', cell_width = JNum 0,
            cell_height = JUndefined\<rparr>]\<rparr>, activeView = Some \<lparr>guid = ''v1''\<rparr>\<rparr> = Inr (JNum 12)
   \<and> height (JNum 4) \<lparr>metadata = Some \<lparr>views = Some [\<lparr>cell_guid = ''v1'', cell_width = JNum 0,
            cell_height = JUndefined\<rparr>]\<rparr>, activeView = Some \<lparr>guid = ''v1''\<rparr>\<rparr> = Inr (JNum 4)"
  using C10_card_width_height_default
    [of "\<lparr>metadata = Some \<lparr>views = Some [\<lparr>cell_guid = ''v1'', cell_width = JNum 0,
            cell_height = JUndefined\<rparr>]\<rparr>, activeView = Some \<lparr>guid = ''v1''\<rparr>\<rparr>"
        "JNum 12" "JNum 4"]
  by (simp add: data_def)

section \<open>Properties of the installation discovery\<close>

text \<open>
  C4, as the code has it. On Windows the discovery takes the directories named by
  \<open>ProgramW6432\<close>, \<open>ProgramFiles(x86)\<close> and \<open>ProgramFiles\<close> in that order, skips a variable
  that is not set, accepts a directory when joining it with the fixed name \<open>dotnet\<close> (the
  SDK folder, on every platform; not the executable's name) gives a path that exists, and
  returns the first such joined path; with no match the result is \<open>undefined\<close>.
  (\<open>path.join\<close> never returns the empty string.)
\<close>

theorem C4_defaultWindowsLocation_first_existing_folder:
  assumes "\<And>f. path_join h f ''dotnet'' \<noteq> []"
  shows "defaultWindowsLocation h =
     of_optional
       (map_option (\<lambda>d. path_join h d ''dotnet'')
          (find (\<lambda>d. existsSync h (path_join h d ''dotnet''))
             (List.map_filter (environment h)
                [''ProgramW6432'', ''ProgramFiles(x86)'', ''ProgramFiles''])))"
  using assms
  by (cases "environment h ''ProgramW6432''"; cases "environment h ''ProgramFiles(x86)''";
      cases "environment h ''ProgramFiles''")
     (simp_all add: defaultWindowsLocation_def getDotnetPathIfPresent_def js_or_def)

theorem C4_defaultWindowsLocation_first_existing_folder_witness:
  "(\<forall>f. path_join windows_host f ''dotnet'' \<noteq> [])
   \<and> defaultWindowsLocation windows_host = JStr (win32_join program_files ''dotnet'')"
  using C4_defaultWindowsLocation_first_existing_folder [of windows_host]
  by (simp add: windows_host_def win32_join_def)

theorem C4_executable_name_counterexample:
  "defaultWindowsLocation windows_host = JStr (win32_join program_files ''dotnet'')
   \<and> \<not> existsSync windows_host (path_join windows_host program_files (dotnet winPlatform))
   \<and> claimed_defaultWindowsLocation windows_host = JUndefined
   \<and> defaultWindowsLocation windows_host \<noteq> claimed_defaultWindowsLocation windows_host"
  by (simp add: defaultWindowsLocation_def claimed_defaultWindowsLocation_def
        getDotnetPathIfPresent_def js_or_def windows_host_def win32_join_def program_files_def
        dotnet_def winPlatform_def)

text \<open>
  C5. On every platform, when the install-location override is present in the
  configuration (a value JavaScript takes as true: for this string setting, a non-empty
  string), \<open>netcoreInstallLocation\<close> returns exactly that value, whatever the default
  paths hold.
\<close>

theorem C5_netcoreInstallLocation_override:
  assumes "truthy (configuration h DBProjectConfigurationKey NetCoreInstallLocationKey)"
  shows "netcoreInstallLocation t h
           = configuration h DBProjectConfigurationKey NetCoreInstallLocationKey"
  using assms by (simp add: netcoreInstallLocation_def js_or_def)

theorem C5_netcoreInstallLocation_override_witness:
  "truthy (configuration linux_host_suppressed DBProjectConfigurationKey NetCoreInstallLocationKey)
   \<and> netcoreInstallLocation linux_tool linux_host_suppressed = JStr ''/opt/dotnet''"
  using C5_netcoreInstallLocation_override [of linux_host_suppressed linux_tool]
  by (simp add: linux_host_suppressed_def DBProjectConfigurationKey_def
        NetCoreInstallLocationKey_def)

section \<open>Properties of the version check\<close>

lemma parseSemVer_floor:
  "parseSemVer ''3.1.0'' = Some \<lparr>major = 3, minor = 1, patch = 0, prerelease = []\<rparr>"
  by code_simp

lemma compare_floor:
  "compare x \<lparr>major = 3, minor = 1, patch = 0, prerelease = []\<rparr> \<ge> 0
     \<longleftrightarrow> releaseAtLeast x (3, 1, 0)"
  by (auto simp: compare_def compareMain_def comparePre_def compareNumbers_def)

lemma gte_floor:
  "gte v ''3.1.0'' = map_option (\<lambda>x. releaseAtLeast x (3, 1, 0)) (parseSemVer v)"
  by (simp add: gte_def parseSemVer_floor compare_floor split: option.splits)

lemma onExit_exit:
  "onExit (Some v) (ExitEvent code signal)
     = (case parseSemVer v of
          None \<Rightarrow> Pending
        | Some x \<Rightarrow> Resolved (releaseAtLeast x (3, 1, 0)))"
  by (simp add: onExit_def gte_floor split: option.splits)

text \<open>
  C2, as the code has it. \<open>onExit\<close> rejects on the child's \<open>error\<close> event and on nothing
  else, and \<open>isNetCoreVersionSupported\<close> turns the rejection into \<open>undefined\<close>. On \<open>exit\<close>
  the code and the signal are not looked at: for a captured version that \<open>semver\<close>
  accepts, the promise resolves to the comparison with 3.1.0, true or false.
\<close>

theorem C2_onExit_rejects_on_error_only:
  "onExit version ErrorEvent = Rejected
   \<and> (onExit version ev = Rejected \<longleftrightarrow> ev = ErrorEvent)
   \<and> onExit version (ExitEvent code signal) = onExit version (ExitEvent (Some 0) None)
   \<and> (gte v ''3.1.0'' = Some b \<longrightarrow> onExit (Some v) (ExitEvent code signal) = Resolved b)
   \<and> (fst (awaitOnExit (netCoreSdkInstalledVersion t) events) = Rejected
        \<longrightarrow> fst (isNetCoreVersionSupported t h events) = Returns None)"
proof -
  have "onExit version ev = Rejected \<longleftrightarrow> ev = ErrorEvent"
    by (cases ev) (simp_all add: onExit_def split: option.splits)
  moreover have "fst (isNetCoreVersionSupported t h events) = Returns None"
    if "fst (awaitOnExit (netCoreSdkInstalledVersion t) events) = Rejected"
    using that
    by (cases "awaitOnExit (netCoreSdkInstalledVersion t) events")
       (simp add: isNetCoreVersionSupported_def)
  ultimately show ?thesis by (simp add: onExit_def)
qed

theorem C2_onExit_rejects_on_error_only_witness:
  "gte ''3.1.100'' ''3.1.0'' = Some True
   \<and> onExit (Some ''3.1.100'') (ExitEvent None (Some ''SIGTERM'')) = Resolved True
   \<and> fst (awaitOnExit None [ErrorEvent]) = Rejected
   \<and> fst (isNetCoreVersionSupported linux_tool linux_host_bare [ErrorEvent]) = Returns None"
proof -
  have g: "gte ''3.1.100'' ''3.1.0'' = Some True"
    by code_simp
  have r: "fst (awaitOnExit (netCoreSdkInstalledVersion linux_tool) [ErrorEvent]) = Rejected"
    by (simp add: onExit_def)
  show ?thesis
    using g r C2_onExit_rejects_on_error_only
      [of None ErrorEvent None "Some ''SIGTERM''" "''3.1.100''" True linux_tool "[ErrorEvent]"
          linux_host_bare]
    by (simp add: linux_tool_def)
qed

theorem C2_nonzero_exit_counterexample:
  "onExit (Some ''2.1.0'') (ExitEvent (Some 1) None) = Resolved False
   \<and> onExit (Some ''2.1.0'') (ExitEvent (Some 1) None) \<noteq> Rejected
   \<and> fst (isNetCoreVersionSupported linux_tool linux_host_bare
            [StdoutData ''2.1.0'', ExitEvent (Some 1) None]) = Returns (Some False)"
proof -
  have p: "parseSemVer ''2.1.0'' = Some \<lparr>major = 2, minor = 1, patch = 0, prerelease = []\<rparr>"
    by code_simp
  have e: "onExit (Some ''2.1.0'') (ExitEvent (Some 1) None) = Resolved False"
    by (simp add: onExit_exit p)
  then show ?thesis
    by (simp add: isNetCoreVersionSupported_def)
qed

lemma isNetCoreVersionSupported_captured:
  "fst (isNetCoreVersionSupported t h [StdoutData v, ExitEvent code signal])
     = (case parseSemVer v of
          None \<Rightarrow> NeverReturns
        | Some x \<Rightarrow> Returns (Some (releaseAtLeast x (3, 1, 0))))"
  by (simp add: isNetCoreVersionSupported_def onExit_exit split: option.splits)

text \<open>
  C6. For every version string \<open>v\<close> captured from the version check, the promise of
  \<open>onExit\<close>, and with it \<open>isNetCoreVersionSupported\<close>, resolves to true if and only if \<open>v\<close>
  is a version at or above 3.1.0 in semantic-version precedence (major, then minor, then
  patch; a prerelease of 3.1.0 precedes 3.1.0), and to false if and only if it is a
  version below; \<open>3.1.0\<close> itself is supported.
\<close>

theorem C6_supported_iff_at_least_3_1_0:
  "(onExit (Some v) (ExitEvent code signal) = Resolved True
      \<longleftrightarrow> (\<exists>x. parseSemVer v = Some x \<and> releaseAtLeast x (3, 1, 0)))
   \<and> (onExit (Some v) (ExitEvent code signal) = Resolved False
      \<longleftrightarrow> (\<exists>x. parseSemVer v = Some x \<and> \<not> releaseAtLeast x (3, 1, 0)))
   \<and> (fst (isNetCoreVersionSupported t h [StdoutData v, ExitEvent code signal])
          = Returns (Some True)
      \<longleftrightarrow> (\<exists>x. parseSemVer v = Some x \<and> releaseAtLeast x (3, 1, 0)))
   \<and> onExit (Some ''3.1.0'') (ExitEvent code signal) = Resolved True"
  by (auto simp: onExit_exit isNetCoreVersionSupported_captured parseSemVer_floor
        split: option.splits)

theorem C6_supported_iff_at_least_3_1_0_witness:
  "onExit (Some ''5.0.203'') (ExitEvent (Some 0) None) = Resolved True
   \<and> fst (isNetCoreVersionSupported linux_tool linux_host_bare
            [StdoutData ''5.0.203'', ExitEvent (Some 0) None]) = Returns (Some True)
   \<and> parseSemVer ''5.0.203'' = Some \<lparr>major = 5, minor = 0, patch = 203, prerelease = []\<rparr>
   \<and> releaseAtLeast \<lparr>major = 5, minor = 0, patch = 203, prerelease = []\<rparr> (3, 1, 0)
   \<and> onExit (Some ''3.1.0'') (ExitEvent (Some 0) None) = Resolved True"
proof -
  have p: "parseSemVer ''5.0.203''
             = Some \<lparr>major = 5, minor = 0, patch = 203, prerelease = []\<rparr>"
    by code_simp
  show ?thesis
    using p C6_supported_iff_at_least_3_1_0
      [of "''5.0.203''" "Some 0" None linux_tool linux_host_bare]
    by simp
qed

section \<open>Properties of the gate\<close>

lemma present_ignores_error:
  "isNetCoreInstallationPresent (t\<lparr>netCoreError := e\<rparr>) h
     = (if fst (isNetCoreInstallationPresent t h) then (True, t\<lparr>netCoreError := e\<rparr>)
        else (False, t\<lparr>netCoreError := netCoreNotPresent\<rparr>))"
  by (simp add: isNetCoreInstallationPresent_def netcoreInstallLocation_def
        defaultLocalInstallLocationByDistribution_def)

lemma shown_showInstallDialog:
  "shown (showInstallDialog t h answer)
     = shown h @ [if netCoreError t = netCoreNotPresent then NetCoreInstallationConfirmation
                  else NetCoreSupportedVersionInstallationConfirmation
                         (netCoreSdkInstalledVersion t)]"
  by (simp add: showInstallDialog_def split: option.splits button.splits)

lemma spawned_showInstallDialog:
  "spawned (showInstallDialog t h answer) = spawned h"
  by (simp add: showInstallDialog_def split: option.splits button.splits)

lemma isNetCoreVersionSupported_host:
  "snd (snd (isNetCoreVersionSupported t h events))
     = h\<lparr>spawned := spawned h @ [''dotnet --version'']\<rparr>"
  by (simp add: isNetCoreVersionSupported_def split: prod.splits promise.splits)

lemma isNetCoreVersionSupported_returns:
  "fst (isNetCoreVersionSupported t h events) = NeverReturns
     \<longleftrightarrow> fst (awaitOnExit (netCoreSdkInstalledVersion t) events) = Pending"
  by (simp add: isNetCoreVersionSupported_def split: prod.splits promise.splits)

lemma findOrInstallNetCore_absent:
  assumes "\<not> fst (isNetCoreInstallationPresent t h)"
  shows "findOrInstallNetCore t h events answer
     = (if configuration h DBProjectConfigurationKey NetCoreDoNotAskAgainKey \<noteq> JBool True
        then (Returns False, t\<lparr>netCoreError := netCoreNotPresent\<rparr>,
              showInstallDialog (t\<lparr>netCoreError := netCoreNotPresent\<rparr>) h answer)
        else (Returns True, t\<lparr>netCoreError := netCoreNotPresent\<rparr>, h))"
  using assms by (simp add: findOrInstallNetCore_def present_ignores_error)

lemma findOrInstallNetCore_present:
  assumes "fst (isNetCoreInstallationPresent t h)"
    and "isNetCoreVersionSupported (t\<lparr>netCoreError := noError\<rparr>) h events = (r, t2, h2)"
  shows "findOrInstallNetCore t h events answer
     = (case r of
          NeverReturns \<Rightarrow> (NeverReturns, t2, h2)
        | Returns (Some True) \<Rightarrow> (Returns True, t2, h2)
        | Returns x \<Rightarrow>
            if configuration h2 DBProjectConfigurationKey NetCoreDoNotAskAgainKey \<noteq> JBool True
            then (Returns False, t2, showInstallDialog t2 h2 answer)
            else (Returns True, t2, h2))"
  using assms
  by (simp add: findOrInstallNetCore_def present_ignores_error
        split: completion.splits option.splits bool.splits)

lemma findOrInstallNetCore_present_spawned:
  assumes "fst (isNetCoreInstallationPresent t h)"
  shows "spawned (snd (snd (findOrInstallNetCore t h events answer)))
           = spawned h @ [''dotnet --version'']"
proof -
  obtain r t2 h2 where run:
    "isNetCoreVersionSupported (t\<lparr>netCoreError := noError\<rparr>) h events = (r, t2, h2)"
    by (cases "isNetCoreVersionSupported (t\<lparr>netCoreError := noError\<rparr>) h events") auto
  have h2: "spawned h2 = spawned h @ [''dotnet --version'']"
    using isNetCoreVersionSupported_host [of "t\<lparr>netCoreError := noError\<rparr>" h events] run
    by simp
  show ?thesis
    unfolding findOrInstallNetCore_present [OF assms run]
    using h2
    by (simp add: spawned_showInstallDialog
          split: completion.splits option.splits bool.splits)
qed

text \<open>
  C7. Whenever no installation is present and "do not ask again" is not set to true, a
  call of \<open>findOrInstallNetCore\<close> returns false and shows exactly one install dialog (the
  one for a missing installation); it spawns no process.
\<close>

theorem C7_gate_prompts_once:
  assumes "\<not> fst (isNetCoreInstallationPresent t h)"
    and "configuration h DBProjectConfigurationKey NetCoreDoNotAskAgainKey \<noteq> JBool True"
  shows "fst (findOrInstallNetCore t h events answer) = Returns False
       \<and> shown (snd (snd (findOrInstallNetCore t h events answer)))
           = shown h @ [NetCoreInstallationConfirmation]
       \<and> spawned (snd (snd (findOrInstallNetCore t h events answer))) = spawned h"
  using assms(2)
  by (simp add: findOrInstallNetCore_absent [OF assms(1)] shown_showInstallDialog
        spawned_showInstallDialog)

theorem C7_gate_prompts_once_witness:
  "\<not> fst (isNetCoreInstallationPresent linux_tool linux_host_bare)
   \<and> configuration linux_host_bare DBProjectConfigurationKey NetCoreDoNotAskAgainKey \<noteq> JBool True
   \<and> fst (findOrInstallNetCore linux_tool linux_host_bare [] None) = Returns False
   \<and> shown (snd (snd (findOrInstallNetCore linux_tool linux_host_bare [] None)))
       = [NetCoreInstallationConfirmation]
   \<and> spawned (snd (snd (findOrInstallNetCore linux_tool linux_host_bare [] None))) = []"
proof -
  have a: "\<not> fst (isNetCoreInstallationPresent linux_tool linux_host_bare)"
    by (simp add: isNetCoreInstallationPresent_def netcoreInstallLocation_def js_or_def
          defaultLocalInstallLocationByDistribution_def defaultnonWindowsLocation_def
          getDotnetPathIfPresent_def linux_tool_def linux_host_bare_def winPlatform_def
          macPlatform_def linuxPlatform_def)
  have b: "configuration linux_host_bare DBProjectConfigurationKey NetCoreDoNotAskAgainKey
             \<noteq> JBool True"
    by (simp add: linux_host_bare_def)
  have c: "shown linux_host_bare = []" "spawned linux_host_bare = []"
    by (simp_all add: linux_host_bare_def)
  show ?thesis
    using a b c C7_gate_prompts_once [OF a b, of "[]" None] by simp
qed

text \<open>
  C1, as the code has it. With "do not ask again" set to true, \<open>findOrInstallNetCore\<close>
  shows no dialog in any installation state. When no installation is present it returns
  true at once and spawns no process. When an installation is present it first spawns
  \<open>dotnet --version\<close> (exactly one child process) and returns true once the version
  check has settled.
\<close>

theorem C1_gate_suppressed:
  assumes "configuration h DBProjectConfigurationKey NetCoreDoNotAskAgainKey = JBool True"
  shows "shown (snd (snd (findOrInstallNetCore t h events answer))) = shown h
       \<and> (\<not> fst (isNetCoreInstallationPresent t h) \<longrightarrow>
            fst (findOrInstallNetCore t h events answer) = Returns True
            \<and> spawned (snd (snd (findOrInstallNetCore t h events answer))) = spawned h)
       \<and> (fst (isNetCoreInstallationPresent t h) \<longrightarrow>
            spawned (snd (snd (findOrInstallNetCore t h events answer)))
              = spawned h @ [''dotnet --version'']
            \<and> (fst (awaitOnExit (netCoreSdkInstalledVersion t) events) \<noteq> Pending \<longrightarrow>
                 fst (findOrInstallNetCore t h events answer) = Returns True))"
proof (cases "fst (isNetCoreInstallationPresent t h)")
  case False
  with assms show ?thesis
    by (simp add: findOrInstallNetCore_absent)
next
  case True
  obtain r t2 h2 where run:
    "isNetCoreVersionSupported (t\<lparr>netCoreError := noError\<rparr>) h events = (r, t2, h2)"
    by (cases "isNetCoreVersionSupported (t\<lparr>netCoreError := noError\<rparr>) h events") auto
  have h2: "h2 = h\<lparr>spawned := spawned h @ [''dotnet --version'']\<rparr>"
    using isNetCoreVersionSupported_host [of "t\<lparr>netCoreError := noError\<rparr>" h events] run
    by simp
  have r: "r = NeverReturns \<longleftrightarrow> fst (awaitOnExit (netCoreSdkInstalledVersion t) events) = Pending"
    using isNetCoreVersionSupported_returns [of "t\<lparr>netCoreError := noError\<rparr>" h events] run
    by simp
  have cfg: "configuration h2 DBProjectConfigurationKey NetCoreDoNotAskAgainKey = JBool True"
    using assms h2 by simp
  have res: "findOrInstallNetCore t h events answer
               = (case r of NeverReturns \<Rightarrow> (NeverReturns, t2, h2) | Returns x \<Rightarrow> (Returns True, t2, h2))"
    unfolding findOrInstallNetCore_present [OF True run]
    using cfg by (simp split: completion.splits option.splits bool.splits)
  have "shown (snd (snd (findOrInstallNetCore t h events answer))) = shown h"
    unfolding res using h2 by (simp split: completion.splits)
  moreover have "fst (awaitOnExit (netCoreSdkInstalledVersion t) events) \<noteq> Pending
      \<Longrightarrow> fst (findOrInstallNetCore t h events answer) = Returns True"
    unfolding res using r by (simp split: completion.splits)
  ultimately show ?thesis
    using True findOrInstallNetCore_present_spawned [OF True, of events answer] by simp
qed

theorem C1_gate_suppressed_witness:
  "configuration linux_host_suppressed DBProjectConfigurationKey NetCoreDoNotAskAgainKey = JBool True
   \<and> fst (isNetCoreInstallationPresent linux_tool linux_host_suppressed)
   \<and> fst (awaitOnExit None [StdoutData ''3.1.100'', ExitEvent (Some 0) None]) \<noteq> Pending
   \<and> fst (findOrInstallNetCore linux_tool linux_host_suppressed
            [StdoutData ''3.1.100'', ExitEvent (Some 0) None] None) = Returns True
   \<and> shown (snd (snd (findOrInstallNetCore linux_tool linux_host_suppressed
            [StdoutData ''3.1.100'', ExitEvent (Some 0) None] None))) = []"
proof -
  have a: "configuration linux_host_suppressed DBProjectConfigurationKey NetCoreDoNotAskAgainKey
             = JBool True"
    by (simp add: linux_host_suppressed_def DBProjectConfigurationKey_def
          NetCoreDoNotAskAgainKey_def)
  have b: "fst (isNetCoreInstallationPresent linux_tool linux_host_suppressed)"
    by (simp add: isNetCoreInstallationPresent_def netcoreInstallLocation_def js_or_def
          fs_existsSync_def linux_host_suppressed_def DBProjectConfigurationKey_def
          NetCoreInstallLocationKey_def)
  have p: "parseSemVer ''3.1.100''
             = Some \<lparr>major = 3, minor = 1, patch = 100, prerelease = []\<rparr>"
    by code_simp
  have c: "fst (awaitOnExit (netCoreSdkInstalledVersion linux_tool)
                  [StdoutData ''3.1.100'', ExitEvent (Some 0) None]) \<noteq> Pending"
    by (simp add: onExit_exit p)
  have d: "shown linux_host_suppressed = []"
    by (simp add: linux_host_suppressed_def)
  show ?thesis
    using a b c d
      C1_gate_suppressed [OF a, of linux_tool "[StdoutData ''3.1.100'', ExitEvent (Some 0) None]" None]
    by (simp add: linux_tool_def)
qed

theorem C1_spawns_when_present_counterexample:
  "configuration linux_host_suppressed DBProjectConfigurationKey NetCoreDoNotAskAgainKey = JBool True
   \<and> spawned linux_host_suppressed = []
   \<and> spawned (snd (snd (findOrInstallNetCore linux_tool linux_host_suppressed
            [StdoutData ''3.1.100'', ExitEvent (Some 0) None] None))) = [''dotnet --version'']
   \<and> \<not> (fst (findOrInstallNetCore linux_tool linux_host_suppressed
              [StdoutData ''3.1.100'', ExitEvent (Some 0) None] None) = Returns True
          \<and> spawned (snd (snd (findOrInstallNetCore linux_tool linux_host_suppressed
              [StdoutData ''3.1.100'', ExitEvent (Some 0) None] None)))
              = spawned linux_host_suppressed)"
proof -
  have a: "configuration linux_host_suppressed DBProjectConfigurationKey NetCoreDoNotAskAgainKey
             = JBool True"
    by (simp add: linux_host_suppressed_def DBProjectConfigurationKey_def
          NetCoreDoNotAskAgainKey_def)
  have b: "fst (isNetCoreInstallationPresent linux_tool linux_host_suppressed)"
    by (simp add: isNetCoreInstallationPresent_def netcoreInstallLocation_def js_or_def
          fs_existsSync_def linux_host_suppressed_def DBProjectConfigurationKey_def
          NetCoreInstallLocationKey_def)
  have e: "spawned linux_host_suppressed = []"
    by (simp add: linux_host_suppressed_def)
  show ?thesis
    using a e
      findOrInstallNetCore_present_spawned
        [OF b, of "[StdoutData ''3.1.100'', ExitEvent (Some 0) None]" None]
    by simp
qed

section \<open>Properties of the streamed command\<close>

lemma fst_streamListeners:
  "fst (streamListeners command st ev) = fst st @ stdoutChunks [ev]"
proof (cases st)
  case (Pair stdoutData ch)
  show ?thesis
  proof (cases ev)
    case (ExitEvent code signal)
    with Pair show ?thesis by (cases code) simp_all
  qed (simp_all add: Pair)
qed

lemma appended_streamListeners:
  "appended (snd (streamListeners command st ev)) = appended (snd st) @ emitted command ev"
proof (cases st)
  case (Pair stdoutData ch)
  show ?thesis
  proof (cases ev)
    case (ExitEvent code signal)
    with Pair show ?thesis by (cases code) (simp_all add: appendLine_def)
  qed (simp_all add: Pair outputDataChunk_def)
qed

lemma awaitChild_events_first:
  "awaitChild command st (map Emits events @ steps)
     = awaitChild command (foldl (streamListeners command) st events) steps"
  by (induction events arbitrary: st) simp_all

lemma fst_foldl_streamListeners:
  "fst (foldl (streamListeners command) st events) = fst st @ stdoutChunks events"
proof (induction events arbitrary: st)
  case Nil
  show ?case by simp
next
  case (Cons ev events)
  have "stdoutChunks (ev # events) = stdoutChunks [ev] @ stdoutChunks events"
    by (cases ev) simp_all
  then show ?case
    by (simp add: Cons.IH fst_streamListeners)
qed

lemma awaitChild_settles:
  "fst (awaitChild command st (map Emits before @ Settles fulfilled # rest))
     = Returns (if fulfilled then Inr (concat (fst st @ stdoutChunks before))
                else Inl ChildProcessError)"
  by (simp add: awaitChild_events_first fst_foldl_streamListeners)

lemma awaitChild_never_settles:
  "fst (awaitChild command st (map Emits events)) = NeverReturns"
  using awaitChild_events_first [of command st events "[]"] by simp

lemma awaitChild_without_stderr:
  "fst st = fst st' \<Longrightarrow>
     fst (awaitChild command st (filter (\<lambda>s. \<not> isStderrStep s) steps))
       = fst (awaitChild command st' steps)"
proof (induction steps arbitrary: st st')
  case Nil
  show ?case by simp
next
  case (Cons step steps)
  show ?case
  proof (cases step)
    case (Settles fulfilled)
    with Cons.prems show ?thesis by simp
  next
    case (Emits ev)
    show ?thesis
    proof (cases "isStderrStep step")
      case True
      then obtain d where d: "ev = StderrData d"
        using Emits by (cases ev) simp_all
      have "fst st = fst (streamListeners command st' ev)"
        using Cons.prems d by (simp add: fst_streamListeners)
      then show ?thesis
        using Emits True Cons.IH [of st "streamListeners command st' ev"] by simp
    next
      case False
      have "fst (streamListeners command st ev) = fst (streamListeners command st' ev)"
        using Cons.prems by (simp add: fst_streamListeners)
      then show ?thesis
        using Emits False
          Cons.IH [of "streamListeners command st ev" "streamListeners command st' ev"]
        by simp
    qed
  qed
qed

lemma appended_listenersAfterReturn:
  "appended (listenersAfterReturn command st steps)
     = appended (snd st) @ concat (map (emitted command) (eventsOf steps))"
proof (induction steps arbitrary: st)
  case Nil
  show ?case by simp
next
  case (Cons step steps)
  show ?case
    by (cases step) (simp_all add: Cons.IH appended_streamListeners)
qed

lemma appended_awaitChild:
  "appended (snd (awaitChild command st steps))
     = appended (snd st) @ concat (map (emitted command) (eventsOf steps))"
proof (induction steps arbitrary: st)
  case Nil
  show ?case by simp
next
  case (Cons step steps)
  show ?case
    by (cases step)
       (simp_all add: Cons.IH appended_streamListeners appended_listenersAfterReturn)
qed

text \<open>
  C3, as the code has it. The string that \<open>runStreamedCommand\<close> returns is the \<open>stdout\<close>
  chunks that arrived before the awaited child promise settled, concatenated in arrival
  order (a rejected promise is thrown on, and without a settlement the function does not
  return); a chunk that arrives later is not in it. The result is the same with all
  \<open>stderr\<close> chunks taken away, so it holds no \<open>stderr\<close> content. On the output channel the
  call leaves the command line and then, for every event of the run in order, what that
  event emits: a \<open>stderr\<close> chunk is only split into lines, each appended behind the header
  \<open>stderr:\<close> (which the code indents by four blanks).
\<close>

theorem C3_runStreamedCommand_stdout_until_settled:
  "fst (runStreamedCommand command ch (map Emits before @ Settles fulfilled # rest))
     = Returns (if fulfilled then Inr (concat (stdoutChunks before)) else Inl ChildProcessError)
   \<and> fst (runStreamedCommand command ch (map Emits events)) = NeverReturns
   \<and> fst (runStreamedCommand command ch (filter (\<lambda>s. \<not> isStderrStep s) steps))
     = fst (runStreamedCommand command ch steps)
   \<and> appended (snd (runStreamedCommand command ch steps))
     = appended ch @ Line (''    > '' @ command) # concat (map (emitted command) (eventsOf steps))
   \<and> emitted command (StderrData d) = map (\<lambda>line. Line (''    stderr: '' @ line)) (splitLines d)"
proof -
  have "fst (runStreamedCommand command ch (filter (\<lambda>s. \<not> isStderrStep s) steps))
          = fst (runStreamedCommand command ch steps)"
    unfolding runStreamedCommand_def by (rule awaitChild_without_stderr) simp
  then show ?thesis
    by (simp add: runStreamedCommand_def awaitChild_settles awaitChild_never_settles
          appended_awaitChild appendLine_def)
qed

theorem C3_runStreamedCommand_stdout_until_settled_witness:
  "fst (runStreamedCommand ''dotnet build'' \<lparr>appended = [], revealed = 0\<rparr>
          (map Emits [StdoutData ''Build '',
                      StderrData (''warn'' @ [CHR 0x0D, CHR 0x0A] @ ''CS0168''),
                      StdoutData ''succeeded'', ExitEvent (Some 0) None]
           @ Settles True # []))
     = Returns (Inr ''Build succeeded'')
   \<and> appended (snd (runStreamedCommand ''dotnet build'' \<lparr>appended = [], revealed = 0\<rparr>
          [Emits (StderrData (''warn'' @ [CHR 0x0D, CHR 0x0A] @ ''CS0168'')),
           Emits (ExitEvent (Some 0) None), Settles True]))
     = [Line ''    > dotnet build'', Line ''    stderr: warn'', Line ''    stderr: CS0168'',
        ExitedWithCode ''dotnet build'' 0]"
  using C3_runStreamedCommand_stdout_until_settled
    [of "''dotnet build''" "\<lparr>appended = [], revealed = 0\<rparr>"
        "[StdoutData ''Build '', StderrData (''warn'' @ [CHR 0x0D, CHR 0x0A] @ ''CS0168''),
          StdoutData ''succeeded'', ExitEvent (Some 0) None]" True "[]" "[]"
        "[Emits (StderrData (''warn'' @ [CHR 0x0D, CHR 0x0A] @ ''CS0168'')),
          Emits (ExitEvent (Some 0) None), Settles True]"
        "''warn'' @ [CHR 0x0D, CHR 0x0A] @ ''CS0168''"]
  by (simp add: prependChar_def)

theorem C3_late_chunk_counterexample:
  "fst (runStreamedCommand ''cmd'' \<lparr>appended = [], revealed = 0\<rparr>
          [Emits (StdoutData ''early''), Emits (ExitEvent (Some 0) None), Settles True,
           Emits (StdoutData ''late'')])
     = Returns (Inr ''early'')
   \<and> concat (stdoutChunks (eventsOf
          [Emits (StdoutData ''early''), Emits (ExitEvent (Some 0) None), Settles True,
           Emits (StdoutData ''late'')])) = ''earlylate''
   \<and> fst (runStreamedCommand ''cmd'' \<lparr>appended = [], revealed = 0\<rparr>
          [Emits (StdoutData ''early''), Emits (ExitEvent (Some 0) None), Settles True,
           Emits (StdoutData ''late'')])
     \<noteq> Returns (Inr (concat (stdoutChunks (eventsOf
          [Emits (StdoutData ''early''), Emits (ExitEvent (Some 0) None), Settles True,
           Emits (StdoutData ''late'')]))))"
  by (simp add: runStreamedCommand_def)

end
